theory Spec2Isabelle
  imports Complex_Main "HOL-Library.Word"
begin

section \<open>Python and numpy values\<close>

text \<open>
  The harness of \<^verbatim>\<open>model_tester.py\<close> and \<^verbatim>\<open>model_validation.py\<close> is embedded function
  by function. A finite float is the real number it denotes; the results of float
  arithmetic are parameters of the model (\<open>float_ops\<close>), and the places where numpy yields
  \<^verbatim>\<open>inf\<close> or \<^verbatim>\<open>nan\<close> instead of raising (a division by zero, the mean of an empty array)
  are written out with \<open>npfloat\<close>.
\<close>

datatype exn =
    ImportError string
  | ValueError string
  | IndexError string
  | RuntimeError string
  | OSError string

fun str_exn :: "exn \<Rightarrow> string" where
  "str_exn (ImportError m) = m"
| "str_exn (ValueError m) = m"
| "str_exn (IndexError m) = m"
| "str_exn (RuntimeError m) = m"
| "str_exn (OSError m) = m"

datatype dtype = Float32 | UInt8

datatype elem = F real | U8 "8 word"

fun to_float :: "elem \<Rightarrow> real" where
  "to_float (F x) = x"
| "to_float (U8 w) = real (unat w)"

datatype npfloat = Fin real | PosInf | NegInf | NaN

text \<open>
  An array is its shape and its items in row-major order; only the items below the
  product of the shape belong to it, so every array is well-formed.
\<close>

record ndarray =
  shape :: "nat list"
  item :: "nat \<Rightarrow> elem"

definition size_of :: "nat list \<Rightarrow> nat" where
  "size_of shp = prod_list shp"

definition flat :: "ndarray \<Rightarrow> elem list" where
  "flat a = map (item a) [0..<size_of (shape a)]"

definition float_values :: "ndarray \<Rightarrow> real list" where
  "float_values a = map to_float (flat a)"

text \<open>\<^verbatim>\<open>x.astype(dtype)\<close> on a float value; the cast to uint8 truncates.\<close>

fun astype :: "dtype \<Rightarrow> real \<Rightarrow> elem" where
  "astype Float32 x = F x"
| "astype UInt8 x = U8 (word_of_int \<lfloor>x\<rfloor>)"

fun zero_of :: "dtype \<Rightarrow> elem" where
  "zero_of Float32 = F 0"
| "zero_of UInt8 = U8 0"

fun one_of :: "dtype \<Rightarrow> elem" where
  "one_of Float32 = F 1"
| "one_of UInt8 = U8 1"

definition np_full :: "nat list \<Rightarrow> elem \<Rightarrow> ndarray" where
  "np_full shp v = \<lparr>shape = shp, item = (\<lambda>_. v)\<rparr>"

definition np_zeros :: "nat list \<Rightarrow> dtype \<Rightarrow> ndarray" where
  "np_zeros shp dt = np_full shp (zero_of dt)"

definition np_ones :: "nat list \<Rightarrow> dtype \<Rightarrow> ndarray" where
  "np_ones shp dt = np_full shp (one_of dt)"

definition np_clip :: "real \<Rightarrow> real \<Rightarrow> real \<Rightarrow> real" where
  "np_clip x lo hi = min (max x lo) hi"

subsection \<open>Reductions and float arithmetic\<close>

text \<open>
  numpy computes its reductions, and the harness its products, differences and
  quotients, in IEEE arithmetic (float64 on the timings, float32 accumulators on float32
  outputs). Their results are not the exact real ones: the computed mean of three equal
  timings can exceed their maximum, and the computed mean of an output can be zero where
  the exact mean is not. The model therefore takes these results as parameters: for a
  non-empty array \<open>xs\<close> of finite floats, \<open>np_mean ops xs\<close> is the float that \<^verbatim>\<open>np.mean\<close>
  returns, and likewise \<open>np_var\<close>, \<open>np_std\<close>, \<open>np_median\<close> and \<open>np_percentile\<close>;
  \<open>float_mul\<close> and \<open>float_sub\<close> are the float product and difference, and \<open>float_div\<close> the
  float quotient by a divisor other than zero (it can overflow to \<^verbatim>\<open>inf\<close>).
\<close>

record float_ops =
  np_mean :: "real list \<Rightarrow> real"
  np_var :: "real list \<Rightarrow> real"
  np_std :: "real list \<Rightarrow> real"
  np_median :: "real list \<Rightarrow> real"
  np_percentile :: "real list \<Rightarrow> real \<Rightarrow> real"
  float_mul :: "real \<Rightarrow> real \<Rightarrow> real"
  float_sub :: "real \<Rightarrow> real \<Rightarrow> real"
  float_div :: "real \<Rightarrow> real \<Rightarrow> npfloat"

text \<open>
  \<^verbatim>\<open>np.min\<close> and \<^verbatim>\<open>np.max\<close> select an item of the array, exactly; they raise
  \<^verbatim>\<open>ValueError\<close> on an empty array (where the mean, the variance and the standard
  deviation only warn).
\<close>

definition np_min :: "real list \<Rightarrow> exn + real" where
  "np_min xs =
     (if xs = [] then
        Inl (ValueError ''zero-size array to reduction operation minimum which has no identity'')
      else Inr (Min (set xs)))"

definition np_max :: "real list \<Rightarrow> exn + real" where
  "np_max xs =
     (if xs = [] then
        Inl (ValueError ''zero-size array to reduction operation maximum which has no identity'')
      else Inr (Max (set xs)))"

text \<open>\<^verbatim>\<open>np.argmax\<close>: the first index of the maximum.\<close>

fun argmax_from :: "nat \<Rightarrow> nat \<Rightarrow> real \<Rightarrow> real list \<Rightarrow> nat" where
  "argmax_from i best bv [] = best"
| "argmax_from i best bv (x # xs) =
     (if bv < x then argmax_from (Suc i) i x xs else argmax_from (Suc i) best bv xs)"

definition np_argmax :: "real list \<Rightarrow> exn + nat" where
  "np_argmax xs =
     (case xs of
        [] \<Rightarrow> Inl (ValueError ''attempt to get argmax of an empty sequence'')
      | x # rest \<Rightarrow> Inr (argmax_from 1 0 x rest))"

text \<open>\<^verbatim>\<open>x / y\<close> on numpy floats: a zero divisor gives \<^verbatim>\<open>inf\<close> or \<^verbatim>\<open>nan\<close>, never an exception.\<close>

definition np_divide :: "float_ops \<Rightarrow> real \<Rightarrow> real \<Rightarrow> npfloat" where
  "np_divide ops x y =
     (if y \<noteq> 0 then float_div ops x y
      else if x = 0 then NaN else if 0 < x then PosInf else NegInf)"

subsection \<open>Dictionaries\<close>

text \<open>
  A Python \<^verbatim>\<open>dict\<close> keeps insertion order; assigning to a key that is present replaces
  the value in place.
\<close>

primrec dict_set :: "string \<Rightarrow> 'v \<Rightarrow> (string \<times> 'v) list \<Rightarrow> (string \<times> 'v) list" where
  "dict_set k v [] = [(k, v)]"
| "dict_set k v (p # ps) = (if fst p = k then (k, v) # ps else p # dict_set k v ps)"

definition dict_keys :: "(string \<times> 'v) list \<Rightarrow> string list" where
  "dict_keys d = map fst d"

definition dict_get :: "(string \<times> 'v) list \<Rightarrow> string \<Rightarrow> 'v option" where
  "dict_get d k = map_of d k"

section \<open>The environment of a tester\<close>

text \<open>
  Everything outside the harness is a parameter: the interpreter
  (\<^verbatim>\<open>set_tensor\<close>, \<^verbatim>\<open>invoke\<close>, \<^verbatim>\<open>get_tensor\<close>), the clock, the random number generator, the
  process memory and the file system act on a world state \<open>'s\<close>; \<open>np\<close> is the float
  arithmetic of numpy. An operation that can raise returns the exception beside the new
  state.
\<close>

record 's env =
  set_tensor :: "ndarray \<Rightarrow> 's \<Rightarrow> exn option \<times> 's"
  invoke :: "'s \<Rightarrow> exn option \<times> 's"
  get_tensor :: "'s \<Rightarrow> ndarray"
  perf_counter :: "'s \<Rightarrow> real"
  random_seed :: "nat \<Rightarrow> 's \<Rightarrow> 's"
  random_rand :: "'s \<Rightarrow> (nat \<Rightarrow> real) \<times> 's"
  random_randn :: "'s \<Rightarrow> (nat \<Rightarrow> real) \<times> 's"
  random_randint :: "nat \<Rightarrow> nat \<Rightarrow> 's \<Rightarrow> (nat \<Rightarrow> nat) \<times> 's"
  psutil_installed :: bool
  memory_rss :: "'s \<Rightarrow> nat"
  strftime :: "'s \<Rightarrow> string"
  write_file :: "string \<Rightarrow> 's \<Rightarrow> exn option \<times> 's"
  np :: float_ops

text \<open>The fields of \<^verbatim>\<open>ModelTester\<close> read from the first input and output detail.\<close>

record tester =
  model_path :: string
  input_shape :: "nat list"
  input_dtype :: dtype
  output_shape :: "nat list"
  output_dtype :: dtype
  st_size :: nat
  num_inputs :: nat
  num_outputs :: nat

text \<open>\<^verbatim>\<open>set_tensor\<close> followed by \<^verbatim>\<open>invoke\<close>; the first exception ends the pair.\<close>

definition run_inference :: "'s env \<Rightarrow> ndarray \<Rightarrow> 's \<Rightarrow> exn option \<times> 's" where
  "run_inference E x s =
     (case set_tensor E x s of
        (Some e, s1) \<Rightarrow> (Some e, s1)
      | (None, s1) \<Rightarrow> invoke E s1)"

definition rand_array :: "nat list \<Rightarrow> dtype \<Rightarrow> (nat \<Rightarrow> real) \<Rightarrow> ndarray" where
  "rand_array shp dt u = \<lparr>shape = shp, item = (\<lambda>k. astype dt (u k))\<rparr>"

definition randint_array :: "nat list \<Rightarrow> (nat \<Rightarrow> nat) \<Rightarrow> ndarray" where
  "randint_array shp r = \<lparr>shape = shp, item = (\<lambda>k. U8 (of_nat (r k)))\<rparr>"

text \<open>
  The sample input of the speed, memory and stability tests:
  \<^verbatim>\<open>rand(*shape).astype(float32)\<close> for a float32 model, \<^verbatim>\<open>randint(0, 255, shape, uint8)\<close>
  otherwise.
\<close>

definition sample_input :: "'s env \<Rightarrow> tester \<Rightarrow> 's \<Rightarrow> ndarray \<times> 's" where
  "sample_input E t s =
     (if input_dtype t = Float32 then
        (case random_rand E s of (u, s1) \<Rightarrow> (rand_array (input_shape t) Float32 u, s1))
      else
        (case random_randint E 0 255 s of (r, s1) \<Rightarrow> (randint_array (input_shape t) r, s1)))"

section \<open>The variation prober\<close>

text \<open>
  The dictionary \<^verbatim>\<open>test_patterns\<close> of \<^verbatim>\<open>test_input_variations\<close>: four entries are
  built first, then \<^verbatim>\<open>max_values\<close> is added and, for a uint8 model, \<^verbatim>\<open>random_uniform\<close>
  is replaced by integers drawn from [0, 256).
\<close>

definition test_patterns :: "'s env \<Rightarrow> tester \<Rightarrow> 's \<Rightarrow> (string \<times> ndarray) list \<times> 's" where
  "test_patterns E t s =
     (case random_rand E s of (u, s1) \<Rightarrow>
      case random_randn E s1 of (g, s2) \<Rightarrow>
        let shp = input_shape t; dt = input_dtype t;
            pats = [(''zeros'', np_zeros shp dt),
                    (''ones'', np_ones shp dt),
                    (''random_uniform'', rand_array shp dt u),
                    (''random_normal'', rand_array shp dt (\<lambda>k. np_clip (g k) 0 1))]
        in if dt = UInt8 then
             (let pats1 = dict_set ''max_values'' (np_full shp (U8 255)) pats
              in case random_randint E 0 256 s2 of (r, s3) \<Rightarrow>
                   (dict_set ''random_uniform'' (randint_array shp r) pats1, s3))
           else (dict_set ''max_values'' (np_ones shp dt) pats, s2))"

record variation_stats =
  var_output_shape :: "nat list"
  var_output_mean :: real
  var_output_std :: real
  var_output_min :: real
  var_output_max :: real
  top_class :: "nat option"
  top_confidence :: "real option"

datatype variation = Passed variation_stats | Failed string

fun success :: "variation \<Rightarrow> bool" where
  "success (Passed _) = True"
| "success (Failed _) = False"

fun error_of :: "variation \<Rightarrow> string option" where
  "error_of (Passed _) = None"
| "error_of (Failed m) = Some m"

text \<open>\<^verbatim>\<open>output[0]\<close>: the first row of an array of rank at least 1.\<close>

definition first_row :: "ndarray \<Rightarrow> exn + real list" where
  "first_row a =
     (case shape a of
        [] \<Rightarrow> Inl (IndexError ''too many indices for array'')
      | n # rest \<Rightarrow>
          if n = 0 then Inl (IndexError ''index 0 is out of bounds for axis 0 with size 0'')
          else Inr (map (\<lambda>k. to_float (item a k)) [0..<size_of rest]))"

text \<open>
  The entry built inside the \<^verbatim>\<open>try\<close> block, in the order of the dictionary literal:
  the mean and the standard deviation never raise, \<^verbatim>\<open>np.min\<close> and \<^verbatim>\<open>np.max\<close> raise on
  an empty output, and the top class is read only when the output has rank 2 or more.
\<close>

definition summarize :: "float_ops \<Rightarrow> ndarray \<Rightarrow> exn + variation_stats" where
  "summarize ops output =
     (let xs = float_values output in
      case np_min xs of Inl e \<Rightarrow> Inl e | Inr mn \<Rightarrow>
      case np_max xs of Inl e \<Rightarrow> Inl e | Inr mx \<Rightarrow>
        if length (shape output) > 1 then
          (case first_row output of Inl e \<Rightarrow> Inl e | Inr row \<Rightarrow>
           case np_argmax row of Inl e \<Rightarrow> Inl e | Inr c \<Rightarrow>
           case np_max row of Inl e \<Rightarrow> Inl e | Inr conf \<Rightarrow>
             Inr \<lparr>var_output_shape = shape output, var_output_mean = np_mean ops xs,
                  var_output_std = np_std ops xs, var_output_min = mn, var_output_max = mx,
                  top_class = Some c, top_confidence = Some conf\<rparr>)
        else
          Inr \<lparr>var_output_shape = shape output, var_output_mean = np_mean ops xs,
               var_output_std = np_std ops xs, var_output_min = mn, var_output_max = mx,
               top_class = None, top_confidence = None\<rparr>)"

text \<open>One iteration of the loop: the \<^verbatim>\<open>try\<close> block and its \<^verbatim>\<open>except Exception\<close>.\<close>

definition probe_pattern :: "'s env \<Rightarrow> ndarray \<Rightarrow> 's \<Rightarrow> variation \<times> 's" where
  "probe_pattern E x s =
     (case run_inference E x s of
        (Some e, s1) \<Rightarrow> (Failed (str_exn e), s1)
      | (None, s1) \<Rightarrow>
          (case summarize (np E) (get_tensor E s1) of
             Inl e \<Rightarrow> (Failed (str_exn e), s1)
           | Inr st \<Rightarrow> (Passed st, s1)))"

fun run_patterns ::
  "'s env \<Rightarrow> (string \<times> ndarray) list \<Rightarrow> (string \<times> variation) list \<Rightarrow> 's
    \<Rightarrow> (string \<times> variation) list \<times> 's" where
  "run_patterns E [] results s = (results, s)"
| "run_patterns E (p # ps) results s =
     (case probe_pattern E (snd p) s of
        (v, s1) \<Rightarrow> run_patterns E ps (dict_set (fst p) v results) s1)"

definition test_input_variations :: "'s env \<Rightarrow> tester \<Rightarrow> 's \<Rightarrow> (string \<times> variation) list \<times> 's" where
  "test_input_variations E t s =
     (case test_patterns E t s of (pats, s1) \<Rightarrow> run_patterns E pats [] s1)"

section \<open>The benchmark engine\<close>

fun warmup :: "'s env \<Rightarrow> ndarray \<Rightarrow> nat \<Rightarrow> 's \<Rightarrow> exn option \<times> 's" where
  "warmup E x 0 s = (None, s)"
| "warmup E x (Suc n) s =
     (case run_inference E x s of
        (Some e, s1) \<Rightarrow> (Some e, s1)
      | (None, s1) \<Rightarrow> warmup E x n s1)"

text \<open>The timed loop: the clock is read before and after each inference.\<close>

fun benchmark :: "'s env \<Rightarrow> ndarray \<Rightarrow> nat \<Rightarrow> real list \<Rightarrow> 's \<Rightarrow> (exn + real list) \<times> 's" where
  "benchmark E x 0 timings s = (Inr timings, s)"
| "benchmark E x (Suc n) timings s =
     (let start_time = perf_counter E s in
      case run_inference E x s of
        (Some e, s1) \<Rightarrow> (Inl e, s1)
      | (None, s1) \<Rightarrow> benchmark E x n (timings @ [float_sub (np E) (perf_counter E s1) start_time]) s1)"

record speed_stats =
  num_iterations :: int
  mean_time_ms :: real
  std_time_ms :: real
  min_time_ms :: real
  max_time_ms :: real
  median_time_ms :: real
  fps :: npfloat
  percentile_95_ms :: real
  percentile_99_ms :: real

text \<open>
  The dictionary returned by \<^verbatim>\<open>test_inference_speed\<close>. On an empty array the mean and
  the standard deviation only warn, and \<^verbatim>\<open>np.min\<close> raises.
\<close>

definition latency_stats :: "float_ops \<Rightarrow> int \<Rightarrow> real list \<Rightarrow> exn + speed_stats" where
  "latency_stats ops n timings =
     (case np_min timings of Inl e \<Rightarrow> Inl e | Inr mn \<Rightarrow>
      case np_max timings of Inl e \<Rightarrow> Inl e | Inr mx \<Rightarrow>
        Inr \<lparr>num_iterations = n,
             mean_time_ms = float_mul ops (np_mean ops timings) 1000,
             std_time_ms = float_mul ops (np_std ops timings) 1000,
             min_time_ms = float_mul ops mn 1000,
             max_time_ms = float_mul ops mx 1000,
             median_time_ms = float_mul ops (np_median ops timings) 1000,
             fps = np_divide ops 1 (np_mean ops timings),
             percentile_95_ms = float_mul ops (np_percentile ops timings 95) 1000,
             percentile_99_ms = float_mul ops (np_percentile ops timings 99) 1000\<rparr>)"

definition test_inference_speed ::
  "'s env \<Rightarrow> tester \<Rightarrow> int \<Rightarrow> int \<Rightarrow> 's \<Rightarrow> (exn + speed_stats) \<times> 's" where
  "test_inference_speed E t n_iter n_warm s =
     (case sample_input E t s of (test_input, s1) \<Rightarrow>
      case warmup E test_input (nat n_warm) s1 of
        (Some e, s2) \<Rightarrow> (Inl e, s2)
      | (None, s2) \<Rightarrow>
          (case benchmark E test_input (nat n_iter) [] s2 of
             (Inl e, s3) \<Rightarrow> (Inl e, s3)
           | (Inr timings, s3) \<Rightarrow> (latency_stats (np E) n_iter timings, s3)))"

section \<open>The memory profiler\<close>

record memory_stats =
  baseline_memory_mb :: real
  peak_memory_mb :: real
  memory_increase_mb :: real
  memory_samples :: "real list"

text \<open>Python's built-in \<^verbatim>\<open>max\<close> on a list.\<close>

definition py_max :: "real list \<Rightarrow> exn + real" where
  "py_max xs =
     (if xs = [] then Inl (ValueError ''max() arg is an empty sequence'')
      else Inr (Max (set xs)))"

definition rss_mb :: "'s env \<Rightarrow> 's \<Rightarrow> real" where
  "rss_mb E s = real (memory_rss E s) / 1024 / 1024"

fun memory_loop ::
  "'s env \<Rightarrow> ndarray \<Rightarrow> nat list \<Rightarrow> real list \<Rightarrow> 's \<Rightarrow> (exn + real list) \<times> 's" where
  "memory_loop E x [] usage s = (Inr usage, s)"
| "memory_loop E x (i # is) usage s =
     (case run_inference E x s of
        (Some e, s1) \<Rightarrow> (Inl e, s1)
      | (None, s1) \<Rightarrow>
          memory_loop E x is (if i mod 10 = 0 then usage @ [rss_mb E s1] else usage) s1)"

text \<open>
  \<^verbatim>\<open>import psutil\<close> is the first statement of \<^verbatim>\<open>test_memory_usage\<close>: where the module is
  missing it raises \<^verbatim>\<open>ImportError\<close> before anything else runs.
\<close>

definition test_memory_usage :: "'s env \<Rightarrow> tester \<Rightarrow> 's \<Rightarrow> (exn + memory_stats) \<times> 's" where
  "test_memory_usage E t s =
     (if \<not> psutil_installed E then (Inl (ImportError ''No module named psutil''), s)
      else
        let baseline_memory = rss_mb E s in
        case sample_input E t s of (test_input, s1) \<Rightarrow>
        case memory_loop E test_input [0..<50] [] s1 of
          (Inl e, s2) \<Rightarrow> (Inl e, s2)
        | (Inr usage, s2) \<Rightarrow>
            (case py_max usage of
               Inl e \<Rightarrow> (Inl e, s2)
             | Inr peak \<Rightarrow>
                 (Inr \<lparr>baseline_memory_mb = baseline_memory, peak_memory_mb = peak,
                       memory_increase_mb = float_sub (np E) peak baseline_memory,
                       memory_samples = usage\<rparr>, s2)))"

section \<open>The stability checker\<close>

fun collect_outputs ::
  "'s env \<Rightarrow> ndarray \<Rightarrow> nat \<Rightarrow> ndarray list \<Rightarrow> 's \<Rightarrow> (exn + ndarray list) \<times> 's" where
  "collect_outputs E x 0 outputs s = (Inr outputs, s)"
| "collect_outputs E x (Suc n) outputs s =
     (case run_inference E x s of
        (Some e, s1) \<Rightarrow> (Inl e, s1)
      | (None, s1) \<Rightarrow> collect_outputs E x n (outputs @ [get_tensor E s1]) s1)"

text \<open>
  \<^verbatim>\<open>np.isclose(a, b, rtol, atol)\<close> on finite values: \<open>|a - b| \<le> atol + rtol * |b|\<close>.
  \<^verbatim>\<open>np.allclose(outputs[0], outputs[1:])\<close> broadcasts the first output against every
  later one.
\<close>

definition np_isclose :: "real \<Rightarrow> real \<Rightarrow> real \<Rightarrow> real \<Rightarrow> bool" where
  "np_isclose a b rtol atol = (\<bar>a - b\<bar> \<le> atol + rtol * \<bar>b\<bar>)"

definition np_allclose :: "ndarray \<Rightarrow> ndarray list \<Rightarrow> real \<Rightarrow> real \<Rightarrow> bool" where
  "np_allclose a bs rtol atol =
     list_all (\<lambda>b. list_all (\<lambda>k. np_isclose (to_float (item a k)) (to_float (item b k)) rtol atol)
                      [0..<size_of (shape a)]) bs"

record stability_stats =
  num_tests :: int
  is_deterministic :: bool
  max_variance :: real
  mean_variance :: real
  output_std :: real
  coefficient_of_variation :: npfloat

text \<open>\<^verbatim>\<open>np.var(outputs, axis=0)\<close>: the variance of each output element across the runs.\<close>

definition var_axis0 :: "float_ops \<Rightarrow> ndarray list \<Rightarrow> real list" where
  "var_axis0 ops outputs =
     map (\<lambda>k. np_var ops (map (\<lambda>a. to_float (item a k)) outputs))
       [0..<size_of (shape (hd outputs))]"

text \<open>
  The analysis after the loop. \<^verbatim>\<open>np.array(outputs)\<close> raises on outputs of different
  shapes; with no output at all \<^verbatim>\<open>outputs[0]\<close> raises \<^verbatim>\<open>IndexError\<close>; \<^verbatim>\<open>np.max\<close> raises on
  an empty variance array. The quotient of the coefficient of variation is taken only
  when the mean is not zero.
\<close>

definition analyze_stability :: "float_ops \<Rightarrow> int \<Rightarrow> ndarray list \<Rightarrow> exn + stability_stats" where
  "analyze_stability ops n outputs =
     (if outputs = [] then
        Inl (IndexError ''index 0 is out of bounds for axis 0 with size 0'')
      else if \<not> list_all (\<lambda>a. shape a = shape (hd outputs)) outputs then
        Inl (ValueError ''setting an array element with a sequence'')
      else
        let output_variance = var_axis0 ops outputs;
            everything = concat (map float_values outputs)
        in case np_max output_variance of Inl e \<Rightarrow> Inl e | Inr mv \<Rightarrow>
             Inr \<lparr>num_tests = n,
                  is_deterministic = np_allclose (hd outputs) (tl outputs) (1 / 10 ^ 7) (1 / 10 ^ 7),
                  max_variance = mv,
                  mean_variance = np_mean ops output_variance,
                  output_std = np_std ops everything,
                  coefficient_of_variation =
                    (if np_mean ops everything \<noteq> 0
                     then np_divide ops (np_std ops everything) (np_mean ops everything)
                     else Fin 0)\<rparr>)"

definition test_numerical_stability ::
  "'s env \<Rightarrow> tester \<Rightarrow> int \<Rightarrow> 's \<Rightarrow> (exn + stability_stats) \<times> 's" where
  "test_numerical_stability E t n s =
     (case sample_input E t (random_seed E 42 s) of (test_input, s1) \<Rightarrow>
      case collect_outputs E test_input (nat n) [] s1 of
        (Inl e, s2) \<Rightarrow> (Inl e, s2)
      | (Inr outputs, s2) \<Rightarrow> (analyze_stability (np E) n outputs, s2))"

section \<open>The report\<close>

record model_info =
  info_model_path :: string
  info_input_shape :: "nat list"
  info_input_dtype :: dtype
  info_output_shape :: "nat list"
  info_output_dtype :: dtype
  model_size_mb :: real
  info_num_inputs :: nat
  info_num_outputs :: nat

definition get_model_info :: "tester \<Rightarrow> model_info" where
  "get_model_info t =
     \<lparr>info_model_path = model_path t,
      info_input_shape = input_shape t,
      info_input_dtype = input_dtype t,
      info_output_shape = output_shape t,
      info_output_dtype = output_dtype t,
      model_size_mb = real (st_size t) / (1024 * 1024),
      info_num_inputs = num_inputs t,
      info_num_outputs = num_outputs t\<rparr>"

datatype test_result =
    Speed speed_stats
  | InputVariations "(string \<times> variation) list"
  | Memory memory_stats
  | ErrorEntry string
  | Stability stability_stats

datatype report_value =
    ModelInfo model_info
  | Timestamp string
  | Tests "(string \<times> test_result) list"

type_synonym report = "(string \<times> report_value) list"

text \<open>\<^verbatim>\<open>if output_path:\<close> skips \<^verbatim>\<open>None\<close> and the empty string.\<close>

definition save_report :: "'s env \<Rightarrow> string option \<Rightarrow> 's \<Rightarrow> exn option \<times> 's" where
  "save_report E output_path s =
     (case output_path of
        None \<Rightarrow> (None, s)
      | Some p \<Rightarrow> if p = [] then (None, s) else write_file E p s)"

text \<open>
  \<^verbatim>\<open>generate_test_report\<close>: the speed test, the input variations, the memory test inside
  \<^verbatim>\<open>try ... except ImportError\<close>, the stability test, then the optional save. Any other
  exception ends the report.
\<close>

definition generate_test_report ::
  "'s env \<Rightarrow> tester \<Rightarrow> string option \<Rightarrow> 's \<Rightarrow> (exn + report) \<times> 's" where
  "generate_test_report E t output_path s =
     (let info = get_model_info t; stamp = strftime E s in
      case test_inference_speed E t 100 10 s of
        (Inl e, s1) \<Rightarrow> (Inl e, s1)
      | (Inr sp, s1) \<Rightarrow>
      let tests1 = dict_set ''speed'' (Speed sp) [] in
      case test_input_variations E t s1 of (vs, s2) \<Rightarrow>
      let tests2 = dict_set ''input_variations'' (InputVariations vs) tests1 in
      case
        (case test_memory_usage E t s2 of
           (Inr m, s3) \<Rightarrow> (Inr (Memory m), s3)
         | (Inl (ImportError _), s3) \<Rightarrow> (Inr (ErrorEntry ''psutil not available''), s3)
         | (Inl e, s3) \<Rightarrow> (Inl e, s3))
      of
        (Inl e, s3) \<Rightarrow> (Inl e, s3)
      | (Inr mem, s3) \<Rightarrow>
      let tests3 = dict_set ''memory'' mem tests2 in
      case test_numerical_stability E t 10 s3 of
        (Inl e, s4) \<Rightarrow> (Inl e, s4)
      | (Inr stab, s4) \<Rightarrow>
      let tests4 = dict_set ''stability'' (Stability stab) tests3;
          report = [(''model_info'', ModelInfo info), (''timestamp'', Timestamp stamp),
                    (''tests'', Tests tests4)]
      in case save_report E output_path s4 of
           (Some e, s5) \<Rightarrow> (Inl e, s5)
         | (None, s5) \<Rightarrow> (Inr report, s5))"

section \<open>Sample data and preprocessing for audio models\<close>

text \<open>The text of a shape inside a message: Python's \<^verbatim>\<open>str\<close> of a list of integers.\<close>

fun str_nat :: "nat \<Rightarrow> string" where
  "str_nat n =
     (if n < 10 then [''0123456789'' ! n]
      else str_nat (n div 10) @ [''0123456789'' ! (n mod 10)])"

definition str_int :: "int \<Rightarrow> string" where
  "str_int i = (if i < 0 then ''-'' @ str_nat (nat (- i)) else str_nat (nat i))"

fun join_comma :: "string list \<Rightarrow> string" where
  "join_comma [] = []"
| "join_comma [x] = x"
| "join_comma (x # y # ys) = x @ '', '' @ join_comma (y # ys)"

definition str_shape :: "int list \<Rightarrow> string" where
  "str_shape shp = ''['' @ join_comma (map str_int shp) @ '']''"

text \<open>\<^verbatim>\<open>np.random.randn(*shape).astype(np.float32)\<close>; a negative dimension raises.\<close>

definition randn_float32 :: "'s env \<Rightarrow> int list \<Rightarrow> 's \<Rightarrow> (exn + ndarray) \<times> 's" where
  "randn_float32 E shp s =
     (if list_ex (\<lambda>d. d < 0) shp then
        (Inl (ValueError ''negative dimensions are not allowed''), s)
      else
        case random_randn E s of (g, s1) \<Rightarrow> (Inr (rand_array (map nat shp) Float32 g), s1))"

text \<open>
  \<^verbatim>\<open>create_sample_audio_data\<close> returns an optional array; the lines it prints are returned
  beside it.
\<close>

definition create_sample_audio_data ::
  "'s env \<Rightarrow> int list \<Rightarrow> 's \<Rightarrow> (exn + ndarray option) \<times> string list \<times> 's" where
  "create_sample_audio_data E shp s =
     (if length shp = 2 \<or> length shp = 3 \<or> length shp = 4 then
        (case randn_float32 E shp s of
           (Inl e, s1) \<Rightarrow> (Inl e, [], s1)
         | (Inr a, s1) \<Rightarrow> (Inr (Some a), [], s1))
      else (Inr None, [''Unexpected audio shape: '' @ str_shape shp], s))"

text \<open>A feature matrix as librosa returns it: one row per coefficient, one column per frame.\<close>

record matrix =
  nrows :: nat
  ncols :: nat
  cell :: "nat \<Rightarrow> nat \<Rightarrow> real"

record audio_env =
  librosa_load :: "string \<Rightarrow> int \<Rightarrow> exn + real list"
  mfcc :: "real list \<Rightarrow> int \<Rightarrow> int \<Rightarrow> exn + matrix"
  melspectrogram :: "real list \<Rightarrow> int \<Rightarrow> int \<Rightarrow> exn + matrix"
  audio_np :: float_ops

text \<open>The preprocessed features: a float array whose items may be \<^verbatim>\<open>nan\<close>.\<close>

record features =
  f_shape :: "nat list"
  f_dtype :: dtype
  f_item :: "nat \<Rightarrow> npfloat"

text \<open>\<^verbatim>\<open>m[:, :stop]\<close>: a negative stop counts from the end.\<close>

definition slice_cols :: "matrix \<Rightarrow> int \<Rightarrow> matrix" where
  "slice_cols m stop =
     m\<lparr>ncols := (if stop < 0 then nat (int (ncols m) + stop) else min (nat stop) (ncols m))\<rparr>"

text \<open>\<^verbatim>\<open>np.pad(m, ((0, 0), (0, pad_width)), mode='constant')\<close>: zeros after the last column.\<close>

definition pad_cols :: "matrix \<Rightarrow> nat \<Rightarrow> matrix" where
  "pad_cols m pad_width =
     \<lparr>nrows = nrows m, ncols = ncols m + pad_width,
      cell = (\<lambda>i j. if j < ncols m then cell m i j else 0)\<rparr>"

text \<open>\<^verbatim>\<open>np.expand_dims(m.T, axis=0).astype(np.float32)\<close>, in row-major order.\<close>

definition expand_transposed :: "matrix \<Rightarrow> features" where
  "expand_transposed m =
     \<lparr>f_shape = [1, ncols m, nrows m], f_dtype = Float32,
      f_item = (\<lambda>k. Fin (cell m (k mod nrows m) (k div nrows m)))\<rparr>"

text \<open>
  \<^verbatim>\<open>np.expand_dims(np.mean(m, axis=1), axis=0).astype(np.float32)\<close>; the mean of a row
  without frames is \<^verbatim>\<open>nan\<close>.
\<close>

definition expand_row_means :: "float_ops \<Rightarrow> matrix \<Rightarrow> features" where
  "expand_row_means ops m =
     \<lparr>f_shape = [1, nrows m], f_dtype = Float32,
      f_item = (\<lambda>i. if ncols m = 0 then NaN
                     else Fin (np_mean ops (map (cell m i) [0..<ncols m])))\<rparr>"

definition preprocess_audio_for_model ::
  "audio_env \<Rightarrow> string \<Rightarrow> int list \<Rightarrow> int \<Rightarrow> exn + features" where
  "preprocess_audio_for_model A audio_path target_shape sample_rate =
     (case librosa_load A audio_path sample_rate of Inl e \<Rightarrow> Inl e | Inr audio \<Rightarrow>
        if length target_shape = 2 then
          (case mfcc A audio sample_rate (target_shape ! 1) of
             Inl e \<Rightarrow> Inl e
           | Inr mfccs \<Rightarrow> Inr (expand_row_means (audio_np A) mfccs))
        else if length target_shape = 3 then
          (case melspectrogram A audio sample_rate (target_shape ! 2) of
             Inl e \<Rightarrow> Inl e
           | Inr mel_spec \<Rightarrow>
               Inr (expand_transposed
                 (if int (ncols mel_spec) > target_shape ! 1
                  then slice_cols mel_spec (target_shape ! 1)
                  else pad_cols mel_spec (nat (target_shape ! 1 - int (ncols mel_spec))))))
        else Inl (ValueError (''Unsupported audio target shape: '' @ str_shape target_shape)))"

section \<open>Auxiliary definitions for the proofs\<close>

text \<open>
  The exact values of the statistics, over the reals: what the computed statistics are
  compared with, and the float arithmetic of the sample environment.
\<close>

definition exact_mean :: "real list \<Rightarrow> real" where
  "exact_mean xs = sum_list xs / real (length xs)"

definition exact_var :: "real list \<Rightarrow> real" where
  "exact_var xs = exact_mean (map (\<lambda>x. (x - exact_mean xs)\<^sup>2) xs)"

definition exact_std :: "real list \<Rightarrow> real" where
  "exact_std xs = sqrt (exact_var xs)"

definition exact_median :: "real list \<Rightarrow> real" where
  "exact_median xs =
     (let s = sort xs; n = length xs
      in if even n then (s ! (n div 2 - 1) + s ! (n div 2)) / 2 else s ! (n div 2))"

text \<open>
  The percentile of the default linear method of \<^verbatim>\<open>np.percentile\<close>: the virtual index
  \<open>(n - 1) * q / 100\<close> into the sorted data, interpolated between its two neighbours.
\<close>

definition exact_percentile :: "real list \<Rightarrow> real \<Rightarrow> real" where
  "exact_percentile xs q =
     (let s = sort xs; n = length xs;
          v = real (n - 1) * (q / 100);
          lo = nat \<lfloor>v\<rfloor>;
          hi = min (lo + 1) (n - 1);
          g = v - real lo
      in s ! lo + (s ! hi - s ! lo) * g)"

definition exact_ops :: float_ops where
  "exact_ops =
     \<lparr>np_mean = exact_mean, np_var = exact_var, np_std = exact_std,
      np_median = exact_median, np_percentile = exact_percentile,
      float_mul = (\<lambda>x y. x * y), float_sub = (\<lambda>x y. x - y),
      float_div = (\<lambda>x y. Fin (x / y))\<rparr>"


text \<open>
  A float arithmetic that absorbs: its mean is 0, as the float32 mean of the output
  \<open>[16777216, 1, -16777216]\<close> is.
\<close>

definition absorbing_ops :: float_ops where
  "absorbing_ops = exact_ops\<lparr>np_mean := (\<lambda>xs. 0)\<rparr>"


text \<open>
  A sample environment: the world state counts the inferences run so far and is the
  clock; the inference numbered \<open>bad\<close> raises; the output has the given shape, and with
  \<open>drift\<close> its items change from one inference to the next. The psutil module is
  missing, and the float arithmetic is exact.
\<close>

definition demo_env :: "nat option \<Rightarrow> nat list \<Rightarrow> bool \<Rightarrow> nat env" where
  "demo_env bad out_shape drift =
     \<lparr>set_tensor = (\<lambda>x s. (None, s)),
      invoke = (\<lambda>s. (if Some s = bad then Some (RuntimeError ''invoke failed'') else None, Suc s)),
      get_tensor = (\<lambda>s. \<lparr>shape = out_shape, item = (\<lambda>k. F (if drift then real s else real k))\<rparr>),
      perf_counter = (\<lambda>s. real s),
      random_seed = (\<lambda>n s. s),
      random_rand = (\<lambda>s. (\<lambda>k. 1 / 2, s)),
      random_randn = (\<lambda>s. (\<lambda>k. 0, s)),
      random_randint = (\<lambda>lo hi s. (\<lambda>k. lo, s)),
      psutil_installed = False,
      memory_rss = (\<lambda>s. 104857600),
      strftime = (\<lambda>s. ''2024-01-01 00:00:00''),
      write_file = (\<lambda>p s. (None, s)),
      np = exact_ops\<rparr>"

definition demo_tester :: tester where
  "demo_tester =
     \<lparr>model_path = ''model.tflite'', input_shape = [1, 2], input_dtype = Float32,
      output_shape = [1, 3], output_dtype = Float32, st_size = 2097152,
      num_inputs = 1, num_outputs = 1\<rparr>"

text \<open>A sample audio library: every file decodes, and every feature matrix has 5 frames.\<close>

definition demo_audio :: audio_env where
  "demo_audio =
     \<lparr>librosa_load = (\<lambda>p sr. Inr [0, 1 / 2]),
      mfcc = (\<lambda>y sr n. Inr \<lparr>nrows = nat n, ncols = 5, cell = (\<lambda>i j. real (i + j))\<rparr>),
      melspectrogram = (\<lambda>y sr n. Inr \<lparr>nrows = nat n, ncols = 5, cell = (\<lambda>i j. real (i + j))\<rparr>),
      audio_np = exact_ops\<rparr>"

text \<open>An output whose exact mean is \<open>1 / 3\<close> and whose float32 mean is 0.\<close>

definition absorbed_output :: ndarray where
  "absorbed_output =
     \<lparr>shape = [1, 3],
      item = (\<lambda>k. F (if k = 0 then 16777216 else if k = 1 then 1 else - 16777216))\<rparr>"

section \<open>Properties\<close>

subsection \<open>Synthetic patterns and the variation prober\<close>

lemma flat_np_full: "flat (np_full shp v) = replicate (size_of shp) v"
  by (simp add: flat_def np_full_def map_replicate_const)

lemma test_patterns_zeros:
  "dict_get (fst (test_patterns E t s)) ''zeros'' = Some (np_zeros (input_shape t) (input_dtype t))"
  by (simp add: test_patterns_def dict_get_def Let_def split: prod.splits)

lemma test_patterns_ones:
  "dict_get (fst (test_patterns E t s)) ''ones'' = Some (np_ones (input_shape t) (input_dtype t))"
  by (simp add: test_patterns_def dict_get_def Let_def split: prod.splits)

text \<open>
  C6: for every input shape and dtype, the pattern \<^verbatim>\<open>zeros\<close> is an array of that shape whose
  items all are the zero of the dtype, and the pattern \<^verbatim>\<open>ones\<close> one whose items all are
  its one.
\<close>

theorem zeros_ones_patterns:
  "\<exists>z w. dict_get (fst (test_patterns E t s)) ''zeros'' = Some z
       \<and> dict_get (fst (test_patterns E t s)) ''ones'' = Some w
       \<and> shape z = input_shape t \<and> shape w = input_shape t
       \<and> flat z = replicate (size_of (input_shape t)) (zero_of (input_dtype t))
       \<and> flat w = replicate (size_of (input_shape t)) (one_of (input_dtype t))"
proof (intro exI conjI)
  show "dict_get (fst (test_patterns E t s)) ''zeros'' = Some (np_zeros (input_shape t) (input_dtype t))"
    by (rule test_patterns_zeros)
  show "dict_get (fst (test_patterns E t s)) ''ones'' = Some (np_ones (input_shape t) (input_dtype t))"
    by (rule test_patterns_ones)
qed (simp_all add: np_zeros_def np_ones_def flat_np_full, simp_all add: np_full_def)

lemma dict_set_fresh: "k \<notin> set (dict_keys d) \<Longrightarrow> dict_set k v d = d @ [(k, v)]"
  by (induction d) (auto simp: dict_keys_def)

lemma dict_get_set_same: "dict_get (dict_set k v d) k = Some v"
  by (induction d) (auto simp: dict_get_def)

lemma dict_get_set_other: "k' \<noteq> k \<Longrightarrow> dict_get (dict_set k v d) k' = dict_get d k'"
  by (induction d) (auto simp: dict_get_def)

lemma run_patterns_state: "snd (run_patterns E ps r s) = snd (run_patterns E ps r' s)"
  by (induction ps arbitrary: r r' s) (auto split: prod.splits)

lemma run_patterns_keep:
  "k \<notin> fst ` set ps \<Longrightarrow> dict_get (fst (run_patterns E ps r s)) k = dict_get r k"
  by (induction ps arbitrary: r s) (auto split: prod.splits simp: dict_get_set_other)

lemma run_patterns_keys:
  "distinct (map fst ps) \<Longrightarrow> fst ` set ps \<inter> set (dict_keys r) = {} \<Longrightarrow>
   dict_keys (fst (run_patterns E ps r s)) = dict_keys r @ map fst ps"
proof (induction ps arbitrary: r s)
  case Nil
  then show ?case by simp
next
  case (Cons p ps)
  obtain v s1 where pp: "probe_pattern E (snd p) s = (v, s1)"
    by (cases "probe_pattern E (snd p) s")
  have fresh: "fst p \<notin> set (dict_keys r)" using Cons.prems(2) by auto
  then have ds: "dict_set (fst p) v r = r @ [(fst p, v)]" by (rule dict_set_fresh)
  have "fst ` set ps \<inter> set (dict_keys (r @ [(fst p, v)])) = {}"
    using Cons.prems by (auto simp: dict_keys_def)
  moreover have "distinct (map fst ps)" using Cons.prems(1) by simp
  ultimately have "dict_keys (fst (run_patterns E ps (r @ [(fst p, v)]) s1))
      = dict_keys (r @ [(fst p, v)]) @ map fst ps"
    by (rule Cons.IH [rotated])
  then show ?case by (simp add: pp ds dict_keys_def)
qed

lemma run_patterns_entry:
  "distinct (map fst ps) \<Longrightarrow> k < length ps \<Longrightarrow>
   dict_get (fst (run_patterns E ps r s)) (fst (ps ! k))
     = Some (fst (probe_pattern E (snd (ps ! k)) (snd (run_patterns E (take k ps) r s))))"
proof (induction ps arbitrary: k r s)
  case Nil
  then show ?case by simp
next
  case (Cons p ps)
  obtain v s1 where pp: "probe_pattern E (snd p) s = (v, s1)"
    by (cases "probe_pattern E (snd p) s")
  show ?case
  proof (cases k)
    case 0
    have "fst p \<notin> fst ` set ps" using Cons.prems(1) by auto
    then have "dict_get (fst (run_patterns E ps (dict_set (fst p) v r) s1)) (fst p)
        = dict_get (dict_set (fst p) v r) (fst p)"
      by (rule run_patterns_keep)
    then show ?thesis using 0 pp by (simp add: dict_get_set_same)
  next
    case (Suc j)
    then have "j < length ps" and "distinct (map fst ps)" using Cons.prems by simp_all
    then have "dict_get (fst (run_patterns E ps (dict_set (fst p) v r) s1)) (fst (ps ! j))
        = Some (fst (probe_pattern E (snd (ps ! j))
             (snd (run_patterns E (take j ps) (dict_set (fst p) v r) s1))))"
      using Cons.IH by blast
    then show ?thesis using Suc pp by simp
  qed
qed

lemma test_patterns_distinct: "distinct (map fst (fst (test_patterns E t s)))"
  by (simp add: test_patterns_def Let_def split: prod.splits)

lemma test_patterns_names:
  "map fst (fst (test_patterns E t s)) =
     [''zeros'', ''ones'', ''random_uniform'', ''random_normal'', ''max_values'']"
  by (simp add: test_patterns_def Let_def split: prod.splits)

lemma probe_pattern_raises:
  "run_inference E x s = (Some e, s1) \<Longrightarrow> probe_pattern E x s = (Failed (str_exn e), s1)"
  by (simp add: probe_pattern_def)

lemma summarize_rank1:
  assumes "length (shape a) = 1" and "0 < size_of (shape a)"
  shows "\<exists>st. summarize ops a = Inr st \<and> top_class st = None \<and> top_confidence st = None
     \<and> var_output_shape st = shape a"
proof -
  have "float_values a \<noteq> []" using assms(2) by (simp add: float_values_def flat_def)
  then show ?thesis using assms(1)
    by (simp add: summarize_def np_min_def np_max_def Let_def)
qed

text \<open>
  C3: when the inference on the pattern at position \<open>k\<close> raises \<open>e\<close>, that pattern's entry
  is a failure carrying the message of \<open>e\<close>, and the result still has an entry for each of
  the five patterns.
\<close>

theorem variations_isolate_failure:
  assumes "test_patterns E t s = (pats, s1)"
    and "k < length pats"
    and "run_inference E (snd (pats ! k)) (snd (run_patterns E (take k pats) [] s1)) = (Some e, s2)"
    and "test_input_variations E t s = (results, s3)"
  shows "dict_get results (fst (pats ! k)) = Some (Failed (str_exn e))
     \<and> success (Failed (str_exn e)) = False
     \<and> error_of (Failed (str_exn e)) = Some (str_exn e)
     \<and> dict_keys results = [''zeros'', ''ones'', ''random_uniform'', ''random_normal'', ''max_values'']
     \<and> dict_keys results = map fst pats"
proof -
  have d: "distinct (map fst pats)" using test_patterns_distinct [of E t s] assms(1) by simp
  have n: "map fst pats = [''zeros'', ''ones'', ''random_uniform'', ''random_normal'', ''max_values'']"
    using test_patterns_names [of E t s] assms(1) by simp
  have r: "results = fst (run_patterns E pats [] s1)"
    using assms(1,4) by (simp add: test_input_variations_def)
  have "dict_get results (fst (pats ! k))
      = Some (fst (probe_pattern E (snd (pats ! k)) (snd (run_patterns E (take k pats) [] s1))))"
    unfolding r using d assms(2) by (rule run_patterns_entry)
  moreover have "dict_keys results = dict_keys ([] :: (string \<times> variation) list) @ map fst pats"
    unfolding r by (rule run_patterns_keys [OF d]) (simp add: dict_keys_def)
  ultimately show ?thesis
    using n probe_pattern_raises [OF assms(3)] by (simp add: dict_keys_def)
qed

text \<open>
  C10: when the inference on the pattern at position \<open>k\<close> succeeds and the output is a
  non-empty array of rank 1, that pattern's entry is a success whose \<^verbatim>\<open>top_class\<close> and
  \<^verbatim>\<open>top_confidence\<close> are \<^verbatim>\<open>None\<close>.
\<close>

theorem variations_rank1_output:
  assumes "test_patterns E t s = (pats, s1)"
    and "k < length pats"
    and "run_inference E (snd (pats ! k)) (snd (run_patterns E (take k pats) [] s1)) = (None, s2)"
    and "length (shape (get_tensor E s2)) = 1"
    and "0 < size_of (shape (get_tensor E s2))"
    and "test_input_variations E t s = (results, s3)"
  shows "\<exists>st. dict_get results (fst (pats ! k)) = Some (Passed st)
     \<and> success (Passed st) \<and> top_class st = None \<and> top_confidence st = None"
proof -
  have d: "distinct (map fst pats)" using test_patterns_distinct [of E t s] assms(1) by simp
  have r: "results = fst (run_patterns E pats [] s1)"
    using assms(1,6) by (simp add: test_input_variations_def)
  have g: "dict_get results (fst (pats ! k))
      = Some (fst (probe_pattern E (snd (pats ! k)) (snd (run_patterns E (take k pats) [] s1))))"
    unfolding r using d assms(2) by (rule run_patterns_entry)
  obtain st where "summarize (np E) (get_tensor E s2) = Inr st" "top_class st = None" "top_confidence st = None"
    using summarize_rank1 [OF assms(4,5)] by blast
  then show ?thesis using g assms(3) by (simp add: probe_pattern_def)
qed

subsection \<open>Latency statistics\<close>












subsection \<open>Stability\<close>






lemma analyze_stability_cv:
  assumes "analyze_stability ops n outs = Inr r"
  shows "concat (map float_values outs) \<noteq> []
     \<and> coefficient_of_variation r =
         (if np_mean ops (concat (map float_values outs)) = 0 then Fin 0
          else float_div ops (np_std ops (concat (map float_values outs)))
                 (np_mean ops (concat (map float_values outs))))"
proof -
  from assms have ne: "outs \<noteq> []" and sz: "var_axis0 ops outs \<noteq> []"
    by (auto simp: analyze_stability_def Let_def np_max_def split: if_splits sum.splits)
  from sz have "0 < size_of (shape (hd outs))" by (simp add: var_axis0_def)
  then have "float_values (hd outs) \<noteq> []" by (simp add: float_values_def flat_def)
  with ne have "concat (map float_values outs) \<noteq> []" by (cases outs) auto
  moreover from assms ne have "coefficient_of_variation r =
         (if np_mean ops (concat (map float_values outs)) = 0 then Fin 0
          else float_div ops (np_std ops (concat (map float_values outs)))
                 (np_mean ops (concat (map float_values outs))))"
    by (auto simp: analyze_stability_def Let_def np_divide_def split: if_splits sum.splits)
  ultimately show ?thesis by simp
qed

text \<open>
  C9: whenever the stability check returns, the collected outputs hold at least one
  value, and the coefficient of variation is 0 when the computed mean of all outputs is
  0, and otherwise the float quotient of the computed standard deviation by that mean, a
  divisor other than zero.
\<close>

theorem cv_guarded:
  assumes "test_numerical_stability E t n s = (Inr r, s')"
  shows "\<exists>outs. fst (collect_outputs E (fst (sample_input E t (random_seed E 42 s))) (nat n) []
                      (snd (sample_input E t (random_seed E 42 s)))) = Inr outs
     \<and> concat (map float_values outs) \<noteq> []
     \<and> coefficient_of_variation r =
         (if np_mean (np E) (concat (map float_values outs)) = 0 then Fin 0
          else float_div (np E) (np_std (np E) (concat (map float_values outs)))
                 (np_mean (np E) (concat (map float_values outs))))"
proof -
  obtain x s1 where si: "sample_input E t (random_seed E 42 s) = (x, s1)"
    by (cases "sample_input E t (random_seed E 42 s)")
  from assms si obtain outs where co: "collect_outputs E x (nat n) [] s1 = (Inr outs, s')"
    and an: "analyze_stability (np E) n outs = Inr r"
    by (auto simp: test_numerical_stability_def split: prod.splits sum.splits)
  show ?thesis
    using co si analyze_stability_cv [OF an] by auto
qed

subsection \<open>The report\<close>

lemma warmup_ok:
  assumes "\<And>x s. fst (run_inference E x s) = None"
  shows "fst (warmup E x n s) = None"
proof (induction n arbitrary: s)
  case 0
  then show ?case by simp
next
  case (Suc n)
  obtain r s1 where ri: "run_inference E x s = (r, s1)" by (cases "run_inference E x s")
  with assms [of x s] have "r = None" by simp
  with ri Suc show ?case by simp
qed

lemma benchmark_ok:
  assumes "\<And>x s. fst (run_inference E x s) = None"
  shows "\<exists>ts. fst (benchmark E x n acc s) = Inr ts \<and> length ts = length acc + n"
proof (induction n arbitrary: acc s)
  case 0
  then show ?case by simp
next
  case (Suc n)
  obtain r s1 where ri: "run_inference E x s = (r, s1)" by (cases "run_inference E x s")
  with assms [of x s] have "r = None" by simp
  with ri Suc [of "acc @ [float_sub (np E) (perf_counter E s1) (perf_counter E s)]" s1] show ?case
    by (simp add: Let_def)
qed

lemma latency_stats_ok: "timings \<noteq> [] \<Longrightarrow> \<exists>st. latency_stats ops n timings = Inr st"
  by (simp add: latency_stats_def np_min_def np_max_def)

lemma speed_ok:
  assumes "\<And>x s. fst (run_inference E x s) = None" and "0 < n"
  shows "\<exists>st. fst (test_inference_speed E t n w s) = Inr st"
proof -
  obtain x s1 where si: "sample_input E t s = (x, s1)" by (cases "sample_input E t s")
  obtain s2 where wu: "warmup E x (nat w) s1 = (None, s2)"
    using warmup_ok [OF assms(1), of x "nat w" s1] by (cases "warmup E x (nat w) s1") auto
  obtain ts s3 where bm: "benchmark E x (nat n) [] s2 = (Inr ts, s3)" and len: "length ts = nat n"
    using benchmark_ok [OF assms(1), of x "nat n" "[]" s2]
    by (cases "benchmark E x (nat n) [] s2") auto
  from len assms(2) have "ts \<noteq> []" by auto
  then obtain st where "latency_stats (np E) n ts = Inr st" using latency_stats_ok by blast
  with si wu bm show ?thesis by (simp add: test_inference_speed_def)
qed

lemma collect_outputs_ok:
  assumes "\<And>x s. fst (run_inference E x s) = None" and "\<And>s. shape (get_tensor E s) = shp"
  shows "\<exists>outs. fst (collect_outputs E x n acc s) = Inr outs \<and> length outs = length acc + n
      \<and> (list_all (\<lambda>a. shape a = shp) acc \<longrightarrow> list_all (\<lambda>a. shape a = shp) outs)"
proof (induction n arbitrary: acc s)
  case 0
  then show ?case by simp
next
  case (Suc n)
  obtain r s1 where ri: "run_inference E x s = (r, s1)" by (cases "run_inference E x s")
  with assms(1) [of x s] have "r = None" by simp
  with ri Suc [of "acc @ [get_tensor E s1]" s1] assms(2) show ?case
    by auto
qed

lemma analyze_stability_ok:
  assumes "outs \<noteq> []" and "list_all (\<lambda>a. shape a = shp) outs" and "0 < size_of shp"
  shows "\<exists>r. analyze_stability ops n outs = Inr r"
proof -
  have h: "shape (hd outs) = shp" using assms(1,2) by (cases outs) auto
  then have "list_all (\<lambda>a. shape a = shape (hd outs)) outs" using assms(2) by simp
  moreover have "var_axis0 ops outs \<noteq> []" using h assms(3) by (simp add: var_axis0_def)
  ultimately show ?thesis using assms(1)
    by (simp add: analyze_stability_def Let_def np_max_def)
qed

lemma stability_ok:
  assumes "\<And>x s. fst (run_inference E x s) = None" and "\<And>s. shape (get_tensor E s) = shp"
    and "0 < size_of shp" and "0 < n"
  shows "\<exists>r. fst (test_numerical_stability E t n s) = Inr r"
proof -
  obtain x s1 where si: "sample_input E t (random_seed E 42 s) = (x, s1)"
    by (cases "sample_input E t (random_seed E 42 s)")
  obtain outs s2 where co: "collect_outputs E x (nat n) [] s1 = (Inr outs, s2)"
    and len: "length outs = nat n" and shp: "list_all (\<lambda>a. shape a = shp) outs"
    using collect_outputs_ok [OF assms(1,2), of x "nat n" "[]" s1]
    by (cases "collect_outputs E x (nat n) [] s1") auto
  from len assms(4) have "outs \<noteq> []" by auto
  then obtain r where "analyze_stability (np E) n outs = Inr r"
    using analyze_stability_ok [OF _ shp assms(3)] by blast
  with si co show ?thesis by (simp add: test_numerical_stability_def)
qed

lemma memory_loop_ok:
  assumes "\<And>x s. fst (run_inference E x s) = None"
  shows "\<exists>u. fst (memory_loop E x is acc s) = Inr u \<and> (acc \<noteq> [] \<longrightarrow> u \<noteq> [])"
proof (induction "is" arbitrary: acc s)
  case Nil
  then show ?case by simp
next
  case (Cons i "is")
  obtain r s1 where ri: "run_inference E x s = (r, s1)" by (cases "run_inference E x s")
  with assms [of x s] have "r = None" by simp
  with ri Cons [of "if i mod 10 = 0 then acc @ [rss_mb E s1] else acc" s1] show ?case
    by auto
qed

lemma memory_loop_50_ok:
  assumes "\<And>x s. fst (run_inference E x s) = None"
  shows "\<exists>u. fst (memory_loop E x [0..<50] [] s) = Inr u \<and> u \<noteq> []"
proof -
  have u: "[0..<50] = 0 # [1..<50]" by (simp add: upt_conv_Cons)
  obtain r s1 where ri: "run_inference E x s = (r, s1)" by (cases "run_inference E x s")
  with assms [of x s] have "r = None" by simp
  with ri memory_loop_ok [OF assms, of x "[1..<50]" "[rss_mb E s1]" s1] show ?thesis
    unfolding u by auto
qed

lemma test_memory_usage_ok:
  assumes "\<And>x s. fst (run_inference E x s) = None"
  shows "(\<exists>m. fst (test_memory_usage E t s) = Inr m) \<or>
         test_memory_usage E t s = (Inl (ImportError ''No module named psutil''), s)"
proof (cases "psutil_installed E")
  case False
  then show ?thesis by (simp add: test_memory_usage_def)
next
  case True
  obtain x s1 where si: "sample_input E t s = (x, s1)" by (cases "sample_input E t s")
  obtain u s2 where ml: "memory_loop E x [0..<50] [] s1 = (Inr u, s2)" and "u \<noteq> []"
    using memory_loop_50_ok [OF assms, of x s1]
    by (cases "memory_loop E x [0..<50] [] s1") auto
  then show ?thesis using True si
    by (simp add: test_memory_usage_def Let_def py_max_def)
qed

lemma test_memory_usage_missing:
  "\<not> psutil_installed E \<Longrightarrow>
   test_memory_usage E t s = (Inl (ImportError ''No module named psutil''), s)"
  by (simp add: test_memory_usage_def)

text \<open>
  C7: where psutil is missing, a run whose speed and stability tests succeed and whose
  report can be saved returns the report; its memory entry is the error entry
  \<^verbatim>\<open>psutil not available\<close>, and the stability test has run after the input variations and
  stands in the report.
\<close>

theorem memory_unavailable_report:
  assumes "\<not> psutil_installed E"
    and "test_inference_speed E t 100 10 s = (Inr sp, s1)"
    and "test_input_variations E t s1 = (vs, s2)"
    and "test_numerical_stability E t 10 s2 = (Inr stab, s3)"
    and "save_report E output_path s3 = (None, s4)"
  shows "generate_test_report E t output_path s =
     (Inr [(''model_info'', ModelInfo (get_model_info t)),
           (''timestamp'', Timestamp (strftime E s)),
           (''tests'', Tests [(''speed'', Speed sp),
                             (''input_variations'', InputVariations vs),
                             (''memory'', ErrorEntry ''psutil not available''),
                             (''stability'', Stability stab)])], s4)"
  using assms(2-5) test_memory_usage_missing [OF assms(1), of t s2]
  by (simp add: generate_test_report_def Let_def)

text \<open>
  C8: every report that is returned has the keys \<^verbatim>\<open>model_info\<close>, \<^verbatim>\<open>timestamp\<close> and \<^verbatim>\<open>tests\<close>,
  and its tests have the keys \<^verbatim>\<open>speed\<close>, \<^verbatim>\<open>input_variations\<close>, \<^verbatim>\<open>memory\<close> and \<^verbatim>\<open>stability\<close>.
\<close>

theorem report_keys:
  assumes "generate_test_report E t output_path s = (Inr rep, s')"
  shows "dict_keys rep = [''model_info'', ''timestamp'', ''tests'']
     \<and> (\<exists>ts. dict_get rep ''tests'' = Some (Tests ts)
           \<and> dict_keys ts = [''speed'', ''input_variations'', ''memory'', ''stability''])"
proof -
  obtain r1 s1 where a1: "test_inference_speed E t 100 10 s = (r1, s1)"
    by (cases "test_inference_speed E t 100 10 s")
  obtain vs s2 where a2: "test_input_variations E t s1 = (vs, s2)"
    by (cases "test_input_variations E t s1")
  obtain r3 s3 where a3: "test_memory_usage E t s2 = (r3, s3)"
    by (cases "test_memory_usage E t s2")
  obtain r4 s4 where a4: "test_numerical_stability E t 10 s3 = (r4, s4)"
    by (cases "test_numerical_stability E t 10 s3")
  obtain r5 s5 where a5: "save_report E output_path s4 = (r5, s5)"
    by (cases "save_report E output_path s4")
  show ?thesis
    using assms a1 a2 a3 a4 a5
    by (auto simp: generate_test_report_def Let_def dict_keys_def dict_get_def
        split: sum.splits exn.splits option.splits)
qed

lemma report_ok:
  assumes "\<And>x s. fst (run_inference E x s) = None" and "\<And>s. shape (get_tensor E s) = shp"
    and "0 < size_of shp" and "\<And>s. fst (save_report E output_path s) = None"
  shows "\<exists>rep. fst (generate_test_report E t output_path s) = Inr rep"
proof -
  obtain sp s1 where a1: "test_inference_speed E t 100 10 s = (Inr sp, s1)"
    using speed_ok [OF assms(1), of 100 t 10 s]
    by (cases "test_inference_speed E t 100 10 s") auto
  obtain vs s2 where a2: "test_input_variations E t s1 = (vs, s2)"
    by (cases "test_input_variations E t s1")
  obtain r3 s3 where a3: "test_memory_usage E t s2 = (r3, s3)"
    by (cases "test_memory_usage E t s2")
  have m: "(\<exists>m. r3 = Inr m) \<or> r3 = Inl (ImportError ''No module named psutil'')"
    using test_memory_usage_ok [OF assms(1), of t s2] a3 by auto
  obtain stab s4 where a4: "test_numerical_stability E t 10 s3 = (Inr stab, s4)"
    using stability_ok [OF assms(1,2,3), of 10 t s3]
    by (cases "test_numerical_stability E t 10 s3") auto
  obtain s5 where a5: "save_report E output_path s4 = (None, s5)"
    using assms(4) [of s4] by (cases "save_report E output_path s4") auto
  show ?thesis
    using a1 a2 a3 a4 a5 m
    by (auto simp: generate_test_report_def Let_def)
qed

subsection \<open>Audio data\<close>

text \<open>
  C4: for a target shape of rank 3 with \<open>T\<close> time steps the output has shape
  \<open>[1, T, n_mels]\<close> and is float32; its frames are those of the mel spectrogram, cut after
  \<open>T\<close> frames or followed by zeros up to \<open>T\<close>.
\<close>

theorem audio_time_dimension:
  assumes "length target_shape = 3" and "0 \<le> target_shape ! 1"
    and "librosa_load A audio_path sample_rate = Inr audio"
    and "melspectrogram A audio sample_rate (target_shape ! 2) = Inr mel_spec"
  shows "\<exists>out. preprocess_audio_for_model A audio_path target_shape sample_rate = Inr out
      \<and> f_shape out = [1, nat (target_shape ! 1), nrows mel_spec]
      \<and> f_dtype out = Float32
      \<and> (\<forall>j i. j < nat (target_shape ! 1) \<and> i < nrows mel_spec \<longrightarrow>
            f_item out (j * nrows mel_spec + i) =
              (if j < ncols mel_spec then Fin (cell mel_spec i j) else Fin 0))"
  using assms
  by (auto simp: preprocess_audio_for_model_def expand_transposed_def slice_cols_def pad_cols_def)

text \<open>
  C5, as amended: for a shape whose rank is not 2, 3 or 4, \<^verbatim>\<open>create_sample_audio_data\<close>
  raises nothing; it prints the message \<^verbatim>\<open>Unexpected audio shape\<close>, returns \<^verbatim>\<open>None\<close> and
  draws no random data.
\<close>

theorem audio_unsupported_rank:
  assumes "length shp \<noteq> 2" and "length shp \<noteq> 3" and "length shp \<noteq> 4"
  shows "create_sample_audio_data E shp s =
           (Inr None, [''Unexpected audio shape: '' @ str_shape shp], s)"
  using assms by (simp add: create_sample_audio_data_def)

section \<open>The properties at sample inputs\<close>

lemma demo_run_inference:
  "run_inference (demo_env bad shp d) x s =
     (if Some s = bad then Some (RuntimeError ''invoke failed'') else None, Suc s)"
  by (simp add: run_inference_def demo_env_def)

lemma probe_pattern_state: "snd (probe_pattern E x s) = snd (run_inference E x s)"
  by (simp add: probe_pattern_def split: prod.splits option.splits sum.splits)

lemma run_patterns_Cons_state:
  "snd (run_patterns E (p # ps) r s) = snd (run_patterns E ps r (snd (run_inference E (snd p) s)))"
  using run_patterns_state [of E ps _ _ r]
  by (simp add: probe_pattern_state [symmetric] split: prod.splits)

lemma demo_test_patterns_state: "snd (test_patterns (demo_env bad shp d) demo_tester s) = s"
  by (simp add: test_patterns_def demo_env_def demo_tester_def Let_def)

lemma demo_run_patterns_state:
  "snd (run_patterns (demo_env bad shp d) ps r s) = s + length ps"
proof (induction ps arbitrary: r s)
  case Nil
  then show ?case by simp
next
  case (Cons p ps)
  have "snd (run_patterns (demo_env bad shp d) (p # ps) r s)
      = snd (run_patterns (demo_env bad shp d) ps r (snd (run_inference (demo_env bad shp d) (snd p) s)))"
    by (rule run_patterns_Cons_state)
  then show ?case using Cons [of r "Suc s"] by (simp add: demo_run_inference)
qed

lemma demo_never_raises: "fst (run_inference (demo_env None shp d) x s) = None"
  by (simp add: demo_run_inference)

lemma demo_shape: "shape (get_tensor (demo_env bad shp d) s) = shp"
  by (simp add: demo_env_def)

theorem zeros_ones_patterns_witness:
  "\<exists>z w. dict_get (fst (test_patterns (demo_env None [1, 3] False) demo_tester 0)) ''zeros'' = Some z
       \<and> dict_get (fst (test_patterns (demo_env None [1, 3] False) demo_tester 0)) ''ones'' = Some w
       \<and> shape z = [1, 2] \<and> shape w = [1, 2]
       \<and> flat z = [F 0, F 0] \<and> flat w = [F 1, F 1]"
  using zeros_ones_patterns [of "demo_env None [1, 3] False" demo_tester 0]
  by (simp add: demo_tester_def size_of_def numeral_2_eq_2)





theorem variations_isolate_failure_witness:
  "2 < length (fst (test_patterns (demo_env (Some 2) [1, 3] False) demo_tester 0))
   \<and> run_inference (demo_env (Some 2) [1, 3] False)
        (snd (fst (test_patterns (demo_env (Some 2) [1, 3] False) demo_tester 0) ! 2))
        (snd (run_patterns (demo_env (Some 2) [1, 3] False)
               (take 2 (fst (test_patterns (demo_env (Some 2) [1, 3] False) demo_tester 0))) []
               (snd (test_patterns (demo_env (Some 2) [1, 3] False) demo_tester 0))))
        = (Some (RuntimeError ''invoke failed''), 3)
   \<and> dict_get (fst (test_input_variations (demo_env (Some 2) [1, 3] False) demo_tester 0))
        ''random_uniform'' = Some (Failed ''invoke failed'')
   \<and> dict_keys (fst (test_input_variations (demo_env (Some 2) [1, 3] False) demo_tester 0))
        = [''zeros'', ''ones'', ''random_uniform'', ''random_normal'', ''max_values'']"
proof -
  let ?E = "demo_env (Some 2) [1, 3] False"
  define pats where "pats = fst (test_patterns ?E demo_tester 0)"
  have n: "map fst pats = [''zeros'', ''ones'', ''random_uniform'', ''random_normal'', ''max_values'']"
    unfolding pats_def by (rule test_patterns_names)
  have tp: "test_patterns ?E demo_tester 0 = (pats, 0)"
    unfolding pats_def using demo_test_patterns_state [of "Some 2" "[1, 3]" False 0]
    by (simp add: prod_eq_iff)
  have len: "2 < length pats" using arg_cong [OF n, of length] by simp
  have st: "snd (run_patterns ?E (take 2 pats) [] 0) = 2"
    using len by (simp add: demo_run_patterns_state)
  have ri: "run_inference ?E (snd (pats ! 2)) (snd (run_patterns ?E (take 2 pats) [] 0))
      = (Some (RuntimeError ''invoke failed''), 3)"
    unfolding st by (simp add: demo_run_inference)
  have nm: "fst (pats ! 2) = ''random_uniform''"
    using arg_cong [OF n, of "\<lambda>xs. xs ! 2"] len by simp
  have tv: "test_input_variations ?E demo_tester 0
      = (fst (test_input_variations ?E demo_tester 0), snd (test_input_variations ?E demo_tester 0))"
    by simp
  from variations_isolate_failure [OF tp len ri tv] nm len ri
  show ?thesis by (simp add: pats_def demo_test_patterns_state)
qed

theorem audio_time_dimension_witness:
  "length [1, 8, 2 :: int] = 3 \<and> (0 :: int) \<le> [1, 8, 2] ! 1
   \<and> librosa_load demo_audio ''a.wav'' 22050 = Inr [0, 1 / 2]
   \<and> melspectrogram demo_audio [0, 1 / 2] 22050 ([1, 8, 2] ! 2)
        = Inr \<lparr>nrows = 2, ncols = 5, cell = (\<lambda>i j. real (i + j))\<rparr>
   \<and> (\<exists>out. preprocess_audio_for_model demo_audio ''a.wav'' [1, 8, 2] 22050 = Inr out
         \<and> f_shape out = [1, 8, 2] \<and> f_dtype out = Float32
         \<and> f_item out (4 * 2 + 1) = Fin 5 \<and> f_item out (7 * 2 + 1) = Fin 0)
   \<and> (\<exists>out. preprocess_audio_for_model demo_audio ''a.wav'' [1, 3, 2] 22050 = Inr out
         \<and> f_shape out = [1, 3, 2] \<and> f_dtype out = Float32)"
proof -
  have l: "librosa_load demo_audio ''a.wav'' 22050 = Inr [0, 1 / 2]"
    by (simp add: demo_audio_def)
  have m8: "melspectrogram demo_audio [0, 1 / 2] 22050 ([1, 8, 2] ! 2)
        = Inr \<lparr>nrows = 2, ncols = 5, cell = (\<lambda>i j. real (i + j))\<rparr>"
    by (simp add: demo_audio_def)
  have m3: "melspectrogram demo_audio [0, 1 / 2] 22050 ([1, 3, 2] ! 2)
        = Inr \<lparr>nrows = 2, ncols = 5, cell = (\<lambda>i j. real (i + j))\<rparr>"
    by (simp add: demo_audio_def)
  obtain out8 where o8: "preprocess_audio_for_model demo_audio ''a.wav'' [1, 8, 2] 22050 = Inr out8"
    "f_shape out8 = [1, 8, 2]" "f_dtype out8 = Float32"
    and i8: "\<forall>j i. j < nat ([1, 8, 2] ! 1) \<and> i < 2 \<longrightarrow>
            f_item out8 (j * 2 + i) = (if j < 5 then Fin (real (i + j)) else Fin 0)"
    using audio_time_dimension [OF _ _ l m8] by auto
  have "f_item out8 (4 * 2 + 1) = Fin 5" using i8 [rule_format, of 4 1] by simp
  moreover have "f_item out8 (7 * 2 + 1) = Fin 0" using i8 [rule_format, of 7 1] by simp
  moreover obtain out3 where "preprocess_audio_for_model demo_audio ''a.wav'' [1, 3, 2] 22050 = Inr out3"
    "f_shape out3 = [1, 3, 2]" "f_dtype out3 = Float32"
    using audio_time_dimension [OF _ _ l m3] by auto
  ultimately show ?thesis using l m8 o8 by auto
qed

theorem audio_unsupported_rank_witness:
  "length ([] :: int list) \<noteq> 2 \<and> length ([] :: int list) \<noteq> 3 \<and> length ([] :: int list) \<noteq> 4
   \<and> create_sample_audio_data (demo_env None [1, 3] False) [] 7
        = (Inr None, [''Unexpected audio shape: []''], 7)"
  using audio_unsupported_rank [of "[]" "demo_env None [1, 3] False" 7]
  by (simp add: str_shape_def)

theorem audio_unsupported_rank_counterexample:
  "create_sample_audio_data (demo_env None [1, 3] False) [5] 0
     = (Inr None, [''Unexpected audio shape: [5]''], 0)"
  by (simp add: create_sample_audio_data_def str_shape_def str_int_def)

theorem memory_unavailable_report_witness:
  "\<not> psutil_installed (demo_env None [1, 3] False)
   \<and> (\<exists>sp s1 vs s2 stab s3.
        test_inference_speed (demo_env None [1, 3] False) demo_tester 100 10 0 = (Inr sp, s1)
      \<and> test_input_variations (demo_env None [1, 3] False) demo_tester s1 = (vs, s2)
      \<and> test_numerical_stability (demo_env None [1, 3] False) demo_tester 10 s2 = (Inr stab, s3)
      \<and> save_report (demo_env None [1, 3] False) (Some ''report.json'') s3 = (None, s3)
      \<and> generate_test_report (demo_env None [1, 3] False) demo_tester (Some ''report.json'') 0 =
          (Inr [(''model_info'', ModelInfo (get_model_info demo_tester)),
                (''timestamp'', Timestamp ''2024-01-01 00:00:00''),
                (''tests'', Tests [(''speed'', Speed sp),
                                  (''input_variations'', InputVariations vs),
                                  (''memory'', ErrorEntry ''psutil not available''),
                                  (''stability'', Stability stab)])], s3))"
proof -
  let ?E = "demo_env None [1, 3] False"
  have ps: "\<not> psutil_installed ?E" by (simp add: demo_env_def)
  obtain sp s1 where a1: "test_inference_speed ?E demo_tester 100 10 0 = (Inr sp, s1)"
    using speed_ok [of ?E 100 demo_tester 10 0]
    by (cases "test_inference_speed ?E demo_tester 100 10 0") (auto simp: demo_never_raises)
  obtain vs s2 where a2: "test_input_variations ?E demo_tester s1 = (vs, s2)"
    by (cases "test_input_variations ?E demo_tester s1")
  obtain stab s3 where a4: "test_numerical_stability ?E demo_tester 10 s2 = (Inr stab, s3)"
    using stability_ok [of ?E "[1, 3]" 10 demo_tester s2]
    by (cases "test_numerical_stability ?E demo_tester 10 s2")
      (auto simp: demo_never_raises demo_shape size_of_def)
  have a5: "save_report ?E (Some ''report.json'') s3 = (None, s3)"
    by (simp add: save_report_def demo_env_def)
  have ts: "strftime ?E 0 = ''2024-01-01 00:00:00''" by (simp add: demo_env_def)
  have g: "generate_test_report ?E demo_tester (Some ''report.json'') 0 =
          (Inr [(''model_info'', ModelInfo (get_model_info demo_tester)),
                (''timestamp'', Timestamp ''2024-01-01 00:00:00''),
                (''tests'', Tests [(''speed'', Speed sp),
                                  (''input_variations'', InputVariations vs),
                                  (''memory'', ErrorEntry ''psutil not available''),
                                  (''stability'', Stability stab)])], s3)"
    using memory_unavailable_report [OF ps a1 a2 a4 a5] unfolding ts .
  show ?thesis
    using ps a1 a2 a4 a5 g by blast
qed

theorem report_keys_witness:
  "\<exists>rep s'. generate_test_report (demo_env None [1, 3] False) demo_tester None 0 = (Inr rep, s')
     \<and> dict_keys rep = [''model_info'', ''timestamp'', ''tests'']
     \<and> (\<exists>ts. dict_get rep ''tests'' = Some (Tests ts)
           \<and> dict_keys ts = [''speed'', ''input_variations'', ''memory'', ''stability''])"
proof -
  let ?E = "demo_env None [1, 3] False"
  have "\<exists>rep. fst (generate_test_report ?E demo_tester None 0) = Inr rep"
    by (rule report_ok [where shp = "[1, 3]"])
      (simp_all add: demo_never_raises demo_shape size_of_def save_report_def)
  then obtain rep s' where h: "generate_test_report ?E demo_tester None 0 = (Inr rep, s')"
    by (cases "generate_test_report ?E demo_tester None 0") auto
  from report_keys [OF h] h show ?thesis by blast
qed

theorem cv_guarded_witness:
  "\<exists>r. test_numerical_stability
          (demo_env None [1, 3] False\<lparr>np := absorbing_ops, get_tensor := (\<lambda>s. absorbed_output)\<rparr>)
          demo_tester 2 0 = (Inr r, 2)
     \<and> exact_mean (concat (map float_values [absorbed_output, absorbed_output])) = 1 / 3
     \<and> np_mean absorbing_ops (concat (map float_values [absorbed_output, absorbed_output])) = 0
     \<and> coefficient_of_variation r = Fin 0"
proof -
  define E where
    "E = demo_env None [1, 3] False\<lparr>np := absorbing_ops, get_tensor := (\<lambda>s. absorbed_output)\<rparr>"
  have npE: "np E = absorbing_ops" by (simp add: E_def)
  have gt: "get_tensor E s = absorbed_output" for s by (simp add: E_def)
  obtain x where si: "sample_input E demo_tester (random_seed E 42 0) = (x, 0)"
    by (simp add: sample_input_def E_def demo_env_def demo_tester_def)
  have ri: "run_inference E y s = (None, Suc s)" for y s
    by (simp add: run_inference_def E_def demo_env_def)
  have co: "collect_outputs E x (nat 2) [] 0 = (Inr [absorbed_output, absorbed_output], 2)"
    by (simp add: eval_nat_numeral ri gt)
  have "\<exists>r. analyze_stability (np E) 2 [absorbed_output, absorbed_output] = Inr r"
    by (rule analyze_stability_ok [where shp = "[1, 3]"])
      (simp_all add: absorbed_output_def size_of_def)
  then obtain r where an: "analyze_stability (np E) 2 [absorbed_output, absorbed_output] = Inr r"
    by blast
  have h: "test_numerical_stability E demo_tester 2 0 = (Inr r, 2)"
    using co by (simp add: test_numerical_stability_def si an)
  have em: "exact_mean (concat (map float_values [absorbed_output, absorbed_output])) = 1 / 3"
    by (simp add: float_values_def flat_def absorbed_output_def size_of_def exact_mean_def
        eval_nat_numeral)
  have am: "np_mean absorbing_ops xs = 0" for xs
    by (simp add: absorbing_ops_def)
  from cv_guarded [OF h] have "coefficient_of_variation r = Fin 0"
    by (auto simp: am npE)
  with h em am show ?thesis unfolding E_def by blast
qed

theorem variations_rank1_output_witness:
  "0 < length (fst (test_patterns (demo_env None [3] False) demo_tester 0))
   \<and> length (shape (get_tensor (demo_env None [3] False) 1)) = 1
   \<and> 0 < size_of (shape (get_tensor (demo_env None [3] False) 1))
   \<and> (\<exists>st. dict_get (fst (test_input_variations (demo_env None [3] False) demo_tester 0)) ''zeros''
            = Some (Passed st)
         \<and> success (Passed st) \<and> top_class st = None \<and> top_confidence st = None)"
proof -
  let ?E = "demo_env None [3] False"
  define pats where "pats = fst (test_patterns ?E demo_tester 0)"
  have n: "map fst pats = [''zeros'', ''ones'', ''random_uniform'', ''random_normal'', ''max_values'']"
    unfolding pats_def by (rule test_patterns_names)
  have tp: "test_patterns ?E demo_tester 0 = (pats, 0)"
    unfolding pats_def using demo_test_patterns_state [of None "[3]" False 0]
    by (simp add: prod_eq_iff)
  have len: "0 < length pats" using arg_cong [OF n, of length] by simp
  have ri: "run_inference ?E (snd (pats ! 0)) (snd (run_patterns ?E (take 0 pats) [] 0)) = (None, 1)"
    by (simp add: demo_run_inference)
  have rk: "length (shape (get_tensor ?E 1)) = 1" by (simp add: demo_env_def)
  have sz: "0 < size_of (shape (get_tensor ?E 1))" by (simp add: demo_env_def size_of_def)
  have nm: "fst (pats ! 0) = ''zeros''"
    using arg_cong [OF n, of "\<lambda>xs. xs ! 0"] len by simp
  have tv: "test_input_variations ?E demo_tester 0
      = (fst (test_input_variations ?E demo_tester 0), snd (test_input_variations ?E demo_tester 0))"
    by simp
  from variations_rank1_output [OF tp len ri rk sz tv] nm len rk sz
  show ?thesis by (simp add: pats_def)
qed

end
